theory Spec2Isabelle
  imports Main
begin

section \<open>The configuration module of mara-pipelines\<close>

text \<open>
  The module \<^verbatim>\<open>mara_pipelines/config.py\<close> is a list of zero-argument functions.
  An application configures the system by rebinding a function of the module
  (\<^verbatim>\<open>mara_pipelines.config.event_handlers = lambda: [...]\<close>); callers always go
  through the module attribute. All functions but one return constants or call a
  collaborator outside the module once;
  \<^verbatim>\<open>event_handlers\<close> is wrapped in \<^verbatim>\<open>functools.lru_cache(maxsize=None)\<close>
  and so owns the only state of the module.
\<close>

subsection \<open>Exceptions and objects\<close>

text \<open>
  An exception is a value: \<open>ValueError\<close> is what the \<^verbatim>\<open>datetime.date\<close> constructor
  raises, \<open>NotImplementedError\<close> is what \<^verbatim>\<open>multiprocessing.cpu_count()\<close> raises when
  the count cannot be determined, \<open>Raised msg\<close> stands for whatever else a collaborator
  outside the module raises.
\<close>

datatype exn = ValueError | NotImplementedError | Raised string

text \<open>
  A Python list object: its identity (the allocation number) and its elements. Two lists
  are the same instance exactly when their identities agree.
\<close>

record 'h pylist =
  ident :: nat
  items :: "'h list"

subsection \<open>The state of the process\<close>

text \<open>
  \<open>cache\<close> is the store of the \<^verbatim>\<open>lru_cache\<close> wrapper; the function takes no
  argument, so the store has the single key \<^verbatim>\<open>()\<close> and is an option. The counters
  record the effects an observer can see: how often the body of \<^verbatim>\<open>event_handlers\<close>
  was entered, how often \<^verbatim>\<open>slack_token()\<close> and the \<^verbatim>\<open>Slack\<close> constructor were
  called, and how many list objects were allocated.
\<close>

record 'h process =
  cache :: "'h pylist option"
  body_runs :: nat
  token_calls :: nat
  slack_calls :: nat
  allocated :: nat

definition fresh :: "'h process" where
  "fresh = \<lparr>cache = None, body_runs = 0, token_calls = 0, slack_calls = 0, allocated = 0\<rparr>"

type_synonym 'h resolver = "'h process \<Rightarrow> (exn + 'h pylist) \<times> 'h process"

subsection \<open>The bindings of the module\<close>

text \<open>
  What the application may have replaced, and the one class the module imports.
  \<^item> \<open>slack_token_binding\<close>: \<open>None\<close> when \<^verbatim>\<open>slack_token\<close> is the module's own
    function; \<open>Some f\<close> when it was rebound, \<open>f k\<close> being what call number \<open>k\<close> of the
    process returns (a rebound function need not be pure).
  \<^item> \<open>event_handlers_binding\<close>: \<open>None\<close> when \<^verbatim>\<open>event_handlers\<close> is the module's own
    cached function; \<open>Some g\<close> when it was rebound to the callable \<open>g\<close>.
  \<^item> \<open>Slack\<close>: the constructor of \<^verbatim>\<open>notification.slack.Slack\<close>, which is not part
    of this module: \<open>Slack k t\<close> is the outcome of construction number \<open>k\<close> with
    argument \<open>t\<close>, a handler or the exception raised.
\<close>

record 'h config =
  slack_token_binding :: "(nat \<Rightarrow> string option) option"
  event_handlers_binding :: "'h resolver option"
  Slack :: "nat \<Rightarrow> string option \<Rightarrow> exn + 'h"

subsection \<open>The deprecated token\<close>

text \<open>\<^verbatim>\<open>def slack_token(): return None\<close>\<close>

definition slack_token :: "string option" where
  "slack_token = None"

text \<open>
  A call \<^verbatim>\<open>slack_token()\<close> through the module attribute: \<open>token_at cfg k\<close> is what
  call number \<open>k\<close> of the process returns.
\<close>

definition token_at :: "'h config \<Rightarrow> nat \<Rightarrow> string option" where
  "token_at cfg k = (case slack_token_binding cfg of None \<Rightarrow> slack_token | Some f \<Rightarrow> f k)"

definition call_slack_token :: "'h config \<Rightarrow> 'h process \<Rightarrow> string option \<times> 'h process" where
  "call_slack_token cfg s = (token_at cfg (token_calls s), s\<lparr>token_calls := Suc (token_calls s)\<rparr>)"

text \<open>A call of the imported constructor: \<^verbatim>\<open>Slack(t)\<close>.\<close>

definition call_Slack :: "'h config \<Rightarrow> string option \<Rightarrow> 'h process \<Rightarrow> (exn + 'h) \<times> 'h process" where
  "call_Slack cfg t s = (Slack cfg (slack_calls s) t, s\<lparr>slack_calls := Suc (slack_calls s)\<rparr>)"

text \<open>
  Python's truth value of an \<^verbatim>\<open>Optional[str]\<close>: \<^verbatim>\<open>None\<close> and the empty string
  are false, every other string is true.
\<close>

fun truthy :: "string option \<Rightarrow> bool" where
  "truthy None = False"
| "truthy (Some []) = False"
| "truthy (Some (c # cs)) = True"

text \<open>A list display \<^verbatim>\<open>[...]\<close> allocates a new list object.\<close>

definition new_list :: "'h list \<Rightarrow> 'h resolver" where
  "new_list hs s = (Inr \<lparr>ident = allocated s, items = hs\<rparr>, s\<lparr>allocated := Suc (allocated s)\<rparr>)"

subsection \<open>The event handlers\<close>

text \<open>
  The body of \<^verbatim>\<open>event_handlers\<close>:
  \<^verbatim>\<open>
    if slack_token():
        from .notification.slack import Slack
        return [Slack(slack_token())]
    else:
        return []
  \<close>
  The token is read twice: once for the test and once for the argument.
\<close>

definition event_handlers_body :: "'h config \<Rightarrow> 'h resolver" where
  "event_handlers_body cfg s0 =
     (let s1 = s0\<lparr>body_runs := Suc (body_runs s0)\<rparr>;
          (t, s2) = call_slack_token cfg s1
      in if truthy t then
           (let (t', s3) = call_slack_token cfg s2;
                (r, s4) = call_Slack cfg t' s3
            in case r of Inl e \<Rightarrow> (Inl e, s4) | Inr h \<Rightarrow> new_list [h] s4)
         else new_list [] s2)"

text \<open>
  \<^verbatim>\<open>functools.lru_cache(maxsize=None)\<close> around a function without arguments: a hit
  returns the stored object; a miss calls the function and stores what it returns; an
  exception of the function passes through and nothing is stored.
\<close>

definition lru_cache :: "'h resolver \<Rightarrow> 'h resolver" where
  "lru_cache f s =
     (case cache s of
        Some l \<Rightarrow> (Inr l, s)
      | None \<Rightarrow>
          (case f s of
             (Inl e, s') \<Rightarrow> (Inl e, s')
           | (Inr l, s') \<Rightarrow> (Inr l, s'\<lparr>cache := Some l\<rparr>)))"

definition event_handlers :: "'h config \<Rightarrow> 'h resolver" where
  "event_handlers cfg = lru_cache (event_handlers_body cfg)"

text \<open>A call \<^verbatim>\<open>mara_pipelines.config.event_handlers()\<close> through the module attribute.\<close>

definition call_event_handlers :: "'h config \<Rightarrow> 'h resolver" where
  "call_event_handlers cfg s =
     (case event_handlers_binding cfg of None \<Rightarrow> event_handlers cfg s | Some g \<Rightarrow> g s)"

text \<open>The rebinding of the docstring: \<^verbatim>\<open>event_handlers = lambda: [h1, h2, ...]\<close>.\<close>

definition lambda_list :: "'h list \<Rightarrow> 'h resolver" where
  "lambda_list hs = new_list hs"

text \<open>
  Successive calls of \<^verbatim>\<open>event_handlers()\<close> (the cached function) in one process; the
  bindings may have changed between two calls, so each call has its own.
\<close>

fun calls :: "'h config list \<Rightarrow> 'h process \<Rightarrow> (exn + 'h pylist) list \<times> 'h process" where
  "calls [] s = ([], s)"
| "calls (cfg # cfgs) s =
     (let (r, s') = event_handlers cfg s;
          (rs, s'') = calls cfgs s'
      in (r # rs, s''))"

subsection \<open>Callers in several threads\<close>

text \<open>
  Modelled from the spec: the spec has several threads call the resolver before it is
  resolved. The wrapper they race through, \<^verbatim>\<open>functools.lru_cache\<close>, is library code
  that is not among the sources of the module, so its steps are taken from its
  documentation: the cache stays coherent under concurrent updates, and the wrapped
  function may be called more than once if another thread makes a call before the first
  call has been completed and cached. A call is therefore three steps, and another thread
  may run between any two of them:
  \<^item> \<open>Entering\<close>: the caller looks the cache up; on a hit it returns the stored list, on
    a miss it goes on;
  \<^item> \<open>Missed\<close>: the caller runs the body of \<^verbatim>\<open>event_handlers\<close>; an exception ends the
    call, a result is held by the caller;
  \<^item> \<open>Computed l\<close>: the caller stores its own result \<open>l\<close> and returns it.
  \<open>Returned r\<close> is a call that has ended with \<open>r\<close>. The body is taken as one step.
\<close>

datatype 'h caller = Entering | Missed | Computed "'h pylist" | Returned "exn + 'h pylist"

fun caller_step :: "'h config \<Rightarrow> 'h caller \<Rightarrow> 'h process \<Rightarrow> 'h caller \<times> 'h process" where
  "caller_step cfg Entering s =
     (case cache s of Some l \<Rightarrow> (Returned (Inr l), s) | None \<Rightarrow> (Missed, s))"
| "caller_step cfg Missed s =
     (case event_handlers_body cfg s of
        (Inl e, s') \<Rightarrow> (Returned (Inl e), s')
      | (Inr l, s') \<Rightarrow> (Computed l, s'))"
| "caller_step cfg (Computed l) s = (Returned (Inr l), s\<lparr>cache := Some l\<rparr>)"
| "caller_step cfg (Returned r) s = (Returned r, s)"

text \<open>
  A schedule is the list of the callers' numbers in the order in which they take their
  steps; a number that names no caller is skipped.
\<close>

fun interleave ::
  "'h config \<Rightarrow> nat list \<Rightarrow> 'h caller list \<Rightarrow> 'h process \<Rightarrow> 'h caller list \<times> 'h process" where
  "interleave cfg [] cs s = (cs, s)"
| "interleave cfg (i # sched) cs s =
     (if i < length cs
      then (let (c', s') = caller_step cfg (cs ! i) s in interleave cfg sched (cs[i := c']) s')
      else interleave cfg sched cs s)"



subsection \<open>Dates\<close>

text \<open>
  \<^verbatim>\<open>datetime.date(year, month, day)\<close>: the constructor raises \<^verbatim>\<open>ValueError\<close>
  unless the year is in 1..9999, the month in 1..12 and the day exists in that month.
  Dates compare as the triples (year, month, day).
\<close>

record date =
  year :: int
  month :: int
  day :: int

definition is_leap :: "int \<Rightarrow> bool" where
  "is_leap y = (y mod 4 = 0 \<and> (y mod 400 = 0 \<or> y mod 100 \<noteq> 0))"

definition days_in_month :: "int \<Rightarrow> int \<Rightarrow> int" where
  "days_in_month y m =
     (if m = 2 then (if is_leap y then 29 else 28)
      else if m = 4 \<or> m = 6 \<or> m = 9 \<or> m = 11 then 30
      else 31)"

definition mk_date :: "int \<Rightarrow> int \<Rightarrow> int \<Rightarrow> exn + date" where
  "mk_date y m d =
     (if 1 \<le> y \<and> y \<le> 9999 \<and> 1 \<le> m \<and> m \<le> 12 \<and> 1 \<le> d \<and> d \<le> days_in_month y m
      then Inr \<lparr>year = y, month = m, day = d\<rparr>
      else Inl ValueError)"

definition date_le :: "date \<Rightarrow> date \<Rightarrow> bool" where
  "date_le a b =
     (year a < year b \<or>
      (year a = year b \<and> (month a < month b \<or> (month a = month b \<and> day a \<le> day b))))"

subsection \<open>The collaborators and the other accessors\<close>

text \<open>
  Three accessors call code outside the module. What such a call does is not decided
  here: it may return, raise, and answer differently from one call to the next. So each
  collaborator is given by the outcome of its call number \<open>k\<close> in the process:
  \<^item> \<open>demo_pipeline\<close>: \<^verbatim>\<open>pipelines.demo_pipeline()\<close>, of a module outside this file; the
    pipeline it returns is an opaque handle here;
  \<^item> \<open>getcwd\<close>: the working directory that \<^verbatim>\<open>pathlib.Path.absolute\<close> reads, as the
    components below the root;
  \<^item> \<open>cpu_count\<close>: \<^verbatim>\<open>multiprocessing.cpu_count()\<close>.
\<close>

record 'p host =
  demo_pipeline :: "nat \<Rightarrow> exn + 'p"
  getcwd :: "nat \<Rightarrow> exn + string list"
  cpu_count :: "nat \<Rightarrow> exn + int"

text \<open>
  The state these accessors run in: the state of the module (the cache of
  \<^verbatim>\<open>event_handlers\<close> and its counters) and the number of calls each collaborator has
  received.
\<close>

record 'h world =
  handlers :: "'h process"
  demo_pipeline_calls :: nat
  getcwd_calls :: nat
  cpu_count_calls :: nat

text \<open>\<^verbatim>\<open>return pipelines.demo_pipeline()\<close>\<close>

definition root_pipeline :: "'p host \<Rightarrow> 'h world \<Rightarrow> (exn + 'p) \<times> 'h world" where
  "root_pipeline h w =
     (demo_pipeline h (demo_pipeline_calls w),
      w\<lparr>demo_pipeline_calls := Suc (demo_pipeline_calls w)\<rparr>)"

text \<open>\<^verbatim>\<open>str(path)\<close> of an absolute POSIX path, given by its components.\<close>

definition posix_str :: "string list \<Rightarrow> string" where
  "posix_str parts = (if parts = [] then ''/'' else concat (map (\<lambda>c. ''/'' @ c) parts))"

text \<open>
  \<^verbatim>\<open>path.absolute()\<close> of a relative path: the working directory is read once and the
  path is put below it.
\<close>

definition absolute :: "'p host \<Rightarrow> string list \<Rightarrow> 'h world \<Rightarrow> (exn + string list) \<times> 'h world" where
  "absolute h rel w =
     ((case getcwd h (getcwd_calls w) of Inl e \<Rightarrow> Inl e | Inr d \<Rightarrow> Inr (d @ rel)),
      w\<lparr>getcwd_calls := Suc (getcwd_calls w)\<rparr>)"

text \<open>\<^verbatim>\<open>return str(pathlib.Path('data').absolute())\<close>\<close>

definition data_dir :: "'p host \<Rightarrow> 'h world \<Rightarrow> (exn + string) \<times> 'h world" where
  "data_dir h w =
     (case absolute h [''data''] w of
        (Inl e, w') \<Rightarrow> (Inl e, w')
      | (Inr p, w') \<Rightarrow> (Inr (posix_str p), w'))"

definition default_db_alias :: string where
  "default_db_alias = ''dwh-etl''"

definition default_task_max_retries :: int where
  "default_task_max_retries = 0"

definition first_date :: "exn + date" where
  "first_date = mk_date 2000 1 1"

definition last_date :: "exn + date" where
  "last_date = mk_date 3000 1 1"

text \<open>\<^verbatim>\<open>return multiprocessing.cpu_count()\<close>\<close>

definition max_number_of_parallel_tasks :: "'p host \<Rightarrow> 'h world \<Rightarrow> (exn + int) \<times> 'h world" where
  "max_number_of_parallel_tasks h w =
     (cpu_count h (cpu_count_calls w), w\<lparr>cpu_count_calls := Suc (cpu_count_calls w)\<rparr>)"

definition bash_command_string :: string where
  "bash_command_string = ''/usr/bin/env bash -o pipefail''"

definition system_statistics_collection_period :: int where
  "system_statistics_collection_period = 1"

definition run_log_retention_in_days :: int where
  "run_log_retention_in_days = 30"

definition allow_run_from_web_ui :: bool where
  "allow_run_from_web_ui = True"

definition base_url :: string where
  "base_url = ''http://127.0.0.1:5000/pipelines''"

definition password_masks :: "string list" where
  "password_masks = []"

definition allowed_execution_origins :: "string option" where
  "allowed_execution_origins = None"

definition execution_host_url :: "string option" where
  "execution_host_url = None"

text \<open>
  The values the accessors return, and a call of the module's own (not rebound)
  function by name. An accessor that returns a literal has no statement that reads or
  writes the state, so its call hands the state on; an accessor that calls a collaborator
  returns the state that call left.
\<close>

datatype 'p pyvalue =
  PyNone | PyStr string | PyInt int | PyBool bool | PyDate date | PyStrList "string list"
  | PyPipeline 'p

definition py_optional_str :: "string option \<Rightarrow> 'p pyvalue" where
  "py_optional_str t = (case t of None \<Rightarrow> PyNone | Some x \<Rightarrow> PyStr x)"

definition py_date :: "exn + date \<Rightarrow> exn + 'p pyvalue" where
  "py_date r = (case r of Inl e \<Rightarrow> Inl e | Inr d \<Rightarrow> Inr (PyDate d))"

datatype accessor =
  Root_pipeline | Data_dir | Default_db_alias | Default_task_max_retries | First_date
  | Last_date | Max_number_of_parallel_tasks | Bash_command_string
  | System_statistics_collection_period | Run_log_retention_in_days
  | Allow_run_from_web_ui | Base_url | Slack_token | Password_masks
  | Allowed_execution_origins | Execution_host_url

definition as_value :: "('a \<Rightarrow> 'p pyvalue) \<Rightarrow> (exn + 'a) \<times> 'h world \<Rightarrow> (exn + 'p pyvalue) \<times> 'h world" where
  "as_value f rw = ((case fst rw of Inl e \<Rightarrow> Inl e | Inr v \<Rightarrow> Inr (f v)), snd rw)"

fun call_default :: "'p host \<Rightarrow> accessor \<Rightarrow> 'h world \<Rightarrow> (exn + 'p pyvalue) \<times> 'h world" where
  "call_default h Root_pipeline w = as_value PyPipeline (root_pipeline h w)"
| "call_default h Data_dir w = as_value PyStr (data_dir h w)"
| "call_default h Default_db_alias w = (Inr (PyStr default_db_alias), w)"
| "call_default h Default_task_max_retries w = (Inr (PyInt default_task_max_retries), w)"
| "call_default h First_date w = (py_date first_date, w)"
| "call_default h Last_date w = (py_date last_date, w)"
| "call_default h Max_number_of_parallel_tasks w = as_value PyInt (max_number_of_parallel_tasks h w)"
| "call_default h Bash_command_string w = (Inr (PyStr bash_command_string), w)"
| "call_default h System_statistics_collection_period w =
     (Inr (PyInt system_statistics_collection_period), w)"
| "call_default h Run_log_retention_in_days w = (Inr (PyInt run_log_retention_in_days), w)"
| "call_default h Allow_run_from_web_ui w = (Inr (PyBool allow_run_from_web_ui), w)"
| "call_default h Base_url w = (Inr (PyStr base_url), w)"
| "call_default h Slack_token w = (Inr (py_optional_str slack_token), w)"
| "call_default h Password_masks w = (Inr (PyStrList password_masks), w)"
| "call_default h Allowed_execution_origins w = (Inr (py_optional_str allowed_execution_origins), w)"
| "call_default h Execution_host_url w = (Inr (py_optional_str execution_host_url), w)"

text \<open>
  The collaborator of an accessor answers two calls in a row alike: call number \<open>k\<close> and
  the one after it both return, and return equal values.
\<close>

definition answers_alike :: "(nat \<Rightarrow> exn + 'a) \<Rightarrow> nat \<Rightarrow> bool" where
  "answers_alike f k =
     (case f k of Inl e \<Rightarrow> False | Inr x \<Rightarrow> (case f (Suc k) of Inl e \<Rightarrow> False | Inr y \<Rightarrow> x = y))"

subsection \<open>Sample bindings\<close>

text \<open>
  Concrete bindings for the closed instances below: \<open>returning v\<close> is the rebinding
  \<^verbatim>\<open>lambda: v\<close>, which returns \<open>v\<close> at every call; a sample handler records the token it
  was built from; \<open>Slack_keeps\<close> is a constructor that never raises, \<open>Slack_rejects\<close> one
  that always raises, and \<open>Slack_recovers\<close> one that raises at the first construction of
  the process only.
\<close>

definition returning :: "'a \<Rightarrow> nat \<Rightarrow> 'a" where
  "returning v k = v"

datatype handler = Slack_handler "string option" | Custom_handler nat

definition Slack_keeps :: "nat \<Rightarrow> string option \<Rightarrow> exn + handler" where
  "Slack_keeps k t = Inr (Slack_handler t)"

definition Slack_rejects :: "nat \<Rightarrow> string option \<Rightarrow> exn + handler" where
  "Slack_rejects k t = Inl (Raised ''bad token'')"

definition Slack_recovers :: "nat \<Rightarrow> string option \<Rightarrow> exn + handler" where
  "Slack_recovers k t = (if k = 0 then Inl (Raised ''bad token'') else Inr (Slack_handler t))"

text \<open>
  Sample hosts: on \<open>steady_host\<close> every collaborator returns the same value at every
  call; \<open>host_without_cpu_count\<close> differs in that the count of processing units cannot be
  determined there; on \<open>building_host\<close> call number \<open>k\<close> of \<^verbatim>\<open>demo_pipeline()\<close> builds
  a new pipeline object, object number \<open>k\<close>. \<open>fresh_world\<close> is the state of a process that
  has called nothing yet.
\<close>

definition new_object :: "nat \<Rightarrow> exn + nat" where
  "new_object k = Inr k"

definition building_host :: "nat host" where
  "building_host =
     \<lparr>demo_pipeline = new_object, getcwd = returning (Inr [''srv'', ''etl'']),
      cpu_count = returning (Inr 8)\<rparr>"

definition steady_host :: "unit host" where
  "steady_host =
     \<lparr>demo_pipeline = returning (Inr ()), getcwd = returning (Inr [''srv'', ''etl'']),
      cpu_count = returning (Inr 8)\<rparr>"

definition host_without_cpu_count :: "unit host" where
  "host_without_cpu_count = steady_host\<lparr>cpu_count := returning (Inl NotImplementedError)\<rparr>"

definition fresh_world :: "'h world" where
  "fresh_world =
     \<lparr>handlers = fresh, demo_pipeline_calls = 0, getcwd_calls = 0, cpu_count_calls = 0\<rparr>"

definition with_token :: "string option \<Rightarrow> (nat \<Rightarrow> string option \<Rightarrow> exn + handler) \<Rightarrow> handler config" where
  "with_token t ctor =
     \<lparr>slack_token_binding = Some (returning t), event_handlers_binding = None, Slack = ctor\<rparr>"

section \<open>Properties\<close>

subsection \<open>One run of the body\<close>

lemma body_falsy:
  assumes "\<not> truthy (token_at cfg (token_calls s))"
  shows "event_handlers_body cfg s =
      (Inr \<lparr>ident = allocated s, items = []\<rparr>,
       s\<lparr>body_runs := Suc (body_runs s), token_calls := Suc (token_calls s),
         allocated := Suc (allocated s)\<rparr>)"
  using assms by (simp add: event_handlers_body_def call_slack_token_def new_list_def)

lemma body_truthy_ok:
  assumes "truthy (token_at cfg (token_calls s))"
    and "Slack cfg (slack_calls s) (token_at cfg (Suc (token_calls s))) = Inr h"
  shows "event_handlers_body cfg s =
      (Inr \<lparr>ident = allocated s, items = [h]\<rparr>,
       s\<lparr>body_runs := Suc (body_runs s), token_calls := Suc (Suc (token_calls s)),
         slack_calls := Suc (slack_calls s), allocated := Suc (allocated s)\<rparr>)"
  using assms
  by (simp add: event_handlers_body_def call_slack_token_def call_Slack_def new_list_def)

lemma body_truthy_raise:
  assumes "truthy (token_at cfg (token_calls s))"
    and "Slack cfg (slack_calls s) (token_at cfg (Suc (token_calls s))) = Inl e"
  shows "event_handlers_body cfg s =
      (Inl e,
       s\<lparr>body_runs := Suc (body_runs s), token_calls := Suc (Suc (token_calls s)),
         slack_calls := Suc (slack_calls s)\<rparr>)"
  using assms
  by (simp add: event_handlers_body_def call_slack_token_def call_Slack_def)

lemma body_cases:
  obtains (falsy) "\<not> truthy (token_at cfg (token_calls s))"
  | (ok) h where "truthy (token_at cfg (token_calls s))"
      "Slack cfg (slack_calls s) (token_at cfg (Suc (token_calls s))) = Inr h"
  | (raise) e where "truthy (token_at cfg (token_calls s))"
      "Slack cfg (slack_calls s) (token_at cfg (Suc (token_calls s))) = Inl e"
  by (cases "Slack cfg (slack_calls s) (token_at cfg (Suc (token_calls s)))") auto

lemma lru_cache_hit: "cache s = Some l \<Longrightarrow> lru_cache f s = (Inr l, s)"
  by (simp add: lru_cache_def)

lemma lru_cache_miss_ok:
  "cache s = None \<Longrightarrow> f s = (Inr l, s') \<Longrightarrow> lru_cache f s = (Inr l, s'\<lparr>cache := Some l\<rparr>)"
  by (simp add: lru_cache_def)

lemma lru_cache_miss_raise:
  "cache s = None \<Longrightarrow> f s = (Inl e, s') \<Longrightarrow> lru_cache f s = (Inl e, s')"
  by (simp add: lru_cache_def)


subsection \<open>The default dates\<close>

lemma first_date_value: "first_date = Inr \<lparr>year = 2000, month = 1, day = 1\<rparr>"
  by (simp add: first_date_def mk_date_def days_in_month_def)

lemma last_date_value: "last_date = Inr \<lparr>year = 3000, month = 1, day = 1\<rparr>"
  by (simp add: last_date_def mk_date_def days_in_month_def)

text \<open>
  C8. Both default dates are constructed without an error, they are 2000-01-01 and
  3000-01-01, and the first is not after the last.
\<close>

theorem first_date_le_last_date:
  "first_date = Inr \<lparr>year = 2000, month = 1, day = 1\<rparr> \<and>
   last_date = Inr \<lparr>year = 3000, month = 1, day = 1\<rparr> \<and>
   (\<exists>d1 d2. first_date = Inr d1 \<and> last_date = Inr d2 \<and> date_le d1 d2)"
  by (simp add: first_date_value last_date_value date_le_def)

subsection \<open>Parallelism\<close>

text \<open>
  C7. On a host with \<open>n\<close> processing units, \<open>n\<close> at least 1, the default
  \<^verbatim>\<open>max_number_of_parallel_tasks()\<close> returns \<open>n\<close>, the count the host reports, and
  so a number that is at least 1.
\<close>

theorem max_number_of_parallel_tasks_ge_1:
  assumes "cpu_count h (cpu_count_calls w) = Inr n" and "1 \<le> n"
  shows "\<exists>m. fst (max_number_of_parallel_tasks h w) = Inr m \<and> m = n \<and> 1 \<le> m"
  using assms by (simp add: max_number_of_parallel_tasks_def)

theorem max_number_of_parallel_tasks_ge_1_witness:
  "\<exists>m. fst (max_number_of_parallel_tasks steady_host
          (fresh_world :: handler world)) = Inr m \<and> m = 8 \<and> 1 \<le> m"
  using max_number_of_parallel_tasks_ge_1 [of steady_host "fresh_world :: handler world" 8]
  by (simp add: steady_host_def returning_def)

subsection \<open>The accessors add no effect of their own\<close>

lemma answers_alikeE:
  assumes "answers_alike f k"
  obtains x where "f k = Inr x" "f (Suc k) = Inr x"
  using assms by (auto simp: answers_alike_def split: sum.splits)

text \<open>
  C6 fails as stated. On a host where the count of processing units cannot be
  determined, \<^verbatim>\<open>multiprocessing.cpu_count()\<close> raises and the default
  \<^verbatim>\<open>max_number_of_parallel_tasks()\<close>, which has no handler around the call, raises
  with it. And where \<^verbatim>\<open>pipelines.demo_pipeline()\<close> builds a new object at every call,
  two calls of the default \<^verbatim>\<open>root_pipeline()\<close>, which calls it anew each time,
  return two different objects.
\<close>

theorem default_accessors_counterexample:
  "fst (call_default host_without_cpu_count Max_number_of_parallel_tasks
         (fresh_world :: handler world)) = Inl NotImplementedError \<and>
   fst (call_default building_host Root_pipeline (fresh_world :: handler world))
     = Inr (PyPipeline 0) \<and>
   fst (call_default building_host Root_pipeline
         (snd (call_default building_host Root_pipeline (fresh_world :: handler world))))
     = Inr (PyPipeline 1)"
  by (simp add: as_value_def max_number_of_parallel_tasks_def host_without_cpu_count_def
      returning_def root_pipeline_def building_host_def new_object_def fresh_world_def)

text \<open>
  C6, amended. Each of the sixteen default accessors, called twice in a row, returns
  the same value both times, raises nothing and leaves the state of the module as it was,
  provided the collaborator it calls (\<^verbatim>\<open>pipelines.demo_pipeline()\<close> for
  \<^verbatim>\<open>root_pipeline\<close>, the working directory for \<^verbatim>\<open>data_dir\<close>,
  \<^verbatim>\<open>multiprocessing.cpu_count()\<close> for \<^verbatim>\<open>max_number_of_parallel_tasks\<close>) returns at
  both calls and returns equal values. The thirteen accessors that call no collaborator
  need no proviso and change nothing at all.
\<close>

theorem default_accessors_pure:
  assumes "a = Root_pipeline \<Longrightarrow> answers_alike (demo_pipeline h) (demo_pipeline_calls w)"
    and "a = Data_dir \<Longrightarrow> answers_alike (getcwd h) (getcwd_calls w)"
    and "a = Max_number_of_parallel_tasks \<Longrightarrow> answers_alike (cpu_count h) (cpu_count_calls w)"
  shows "(\<exists>v. fst (call_default h a w) = Inr v \<and>
              fst (call_default h a (snd (call_default h a w))) = Inr v) \<and>
         handlers (snd (call_default h a w)) = handlers w \<and>
         handlers (snd (call_default h a (snd (call_default h a w)))) = handlers w \<and>
         (a \<notin> {Root_pipeline, Data_dir, Max_number_of_parallel_tasks} \<longrightarrow>
            snd (call_default h a w) = w)"
proof (cases a)
  case Root_pipeline
  with assms(1) obtain p where "demo_pipeline h (demo_pipeline_calls w) = Inr p"
    "demo_pipeline h (Suc (demo_pipeline_calls w)) = Inr p"
    by (auto elim: answers_alikeE)
  with Root_pipeline show ?thesis
    by (simp add: as_value_def root_pipeline_def)
next
  case Data_dir
  with assms(2) obtain d where "getcwd h (getcwd_calls w) = Inr d"
    "getcwd h (Suc (getcwd_calls w)) = Inr d"
    by (auto elim: answers_alikeE)
  with Data_dir show ?thesis
    by (simp add: as_value_def data_dir_def absolute_def)
next
  case Max_number_of_parallel_tasks
  with assms(3) obtain n where "cpu_count h (cpu_count_calls w) = Inr n"
    "cpu_count h (Suc (cpu_count_calls w)) = Inr n"
    by (auto elim: answers_alikeE)
  with Max_number_of_parallel_tasks show ?thesis
    by (simp add: as_value_def max_number_of_parallel_tasks_def)
next
  case First_date
  then show ?thesis by (simp add: py_date_def first_date_value)
next
  case Last_date
  then show ?thesis by (simp add: py_date_def last_date_value)
qed simp_all

theorem default_accessors_pure_witness:
  "fst (call_default steady_host Root_pipeline (fresh_world :: handler world)) = Inr (PyPipeline ()) \<and>
   fst (call_default steady_host Data_dir (fresh_world :: handler world)) = Inr (PyStr ''/srv/etl/data'') \<and>
   fst (call_default steady_host Max_number_of_parallel_tasks (fresh_world :: handler world))
     = Inr (PyInt 8) \<and>
   fst (call_default steady_host Max_number_of_parallel_tasks
         (snd (call_default steady_host Max_number_of_parallel_tasks (fresh_world :: handler world))))
     = Inr (PyInt 8) \<and>
   handlers (snd (call_default steady_host Max_number_of_parallel_tasks
         (fresh_world :: handler world))) = fresh \<and>
   call_default steady_host Run_log_retention_in_days (fresh_world :: handler world)
     = (Inr (PyInt 30), fresh_world)"
proof -
  have alike: "answers_alike (returning (Inr x)) k" for x :: 'a and k
    by (simp add: answers_alike_def returning_def)
  have sel: "demo_pipeline steady_host = returning (Inr ())"
    "getcwd steady_host = returning (Inr [''srv'', ''etl''])"
    "cpu_count steady_host = returning (Inr 8)"
    by (simp_all add: steady_host_def)
  have 1: "fst (call_default steady_host Root_pipeline (fresh_world :: handler world))
      = Inr (PyPipeline ())"
    using default_accessors_pure [of Root_pipeline steady_host "fresh_world :: handler world"]
    by (simp add: sel alike as_value_def root_pipeline_def returning_def)
  have 2: "fst (call_default steady_host Data_dir (fresh_world :: handler world))
      = Inr (PyStr ''/srv/etl/data'')"
    using default_accessors_pure [of Data_dir steady_host "fresh_world :: handler world"]
    by (simp add: sel alike as_value_def data_dir_def absolute_def returning_def posix_str_def)
  have 3: "fst (call_default steady_host Max_number_of_parallel_tasks (fresh_world :: handler world))
       = Inr (PyInt 8) \<and>
     fst (call_default steady_host Max_number_of_parallel_tasks
         (snd (call_default steady_host Max_number_of_parallel_tasks (fresh_world :: handler world))))
       = Inr (PyInt 8) \<and>
     handlers (snd (call_default steady_host Max_number_of_parallel_tasks
         (fresh_world :: handler world))) = fresh"
    using default_accessors_pure
      [of Max_number_of_parallel_tasks steady_host "fresh_world :: handler world"]
    by (simp add: sel alike as_value_def max_number_of_parallel_tasks_def returning_def
        fresh_world_def)
  have 4: "call_default steady_host Run_log_retention_in_days (fresh_world :: handler world)
     = (Inr (PyInt 30), fresh_world)"
    using default_accessors_pure
      [of Run_log_retention_in_days steady_host "fresh_world :: handler world"]
    by (simp add: run_log_retention_in_days_def)
  from 1 2 3 4 show ?thesis by simp
qed

subsection \<open>One call of the cached function\<close>

lemma event_handlers_hit: "cache s = Some l \<Longrightarrow> event_handlers cfg s = (Inr l, s)"
  by (simp add: event_handlers_def lru_cache_hit)

lemma event_handlers_falsy:
  assumes "cache s = None" and "\<not> truthy (token_at cfg (token_calls s))"
  shows "event_handlers cfg s =
      (Inr \<lparr>ident = allocated s, items = []\<rparr>,
       s\<lparr>body_runs := Suc (body_runs s), token_calls := Suc (token_calls s),
         allocated := Suc (allocated s),
         cache := Some \<lparr>ident = allocated s, items = []\<rparr>\<rparr>)"
  using assms by (simp add: event_handlers_def lru_cache_def body_falsy)

lemma event_handlers_ok:
  assumes "cache s = None" and "truthy (token_at cfg (token_calls s))"
    and "Slack cfg (slack_calls s) (token_at cfg (Suc (token_calls s))) = Inr h"
  shows "event_handlers cfg s =
      (Inr \<lparr>ident = allocated s, items = [h]\<rparr>,
       s\<lparr>body_runs := Suc (body_runs s), token_calls := Suc (Suc (token_calls s)),
         slack_calls := Suc (slack_calls s), allocated := Suc (allocated s),
         cache := Some \<lparr>ident = allocated s, items = [h]\<rparr>\<rparr>)"
  using assms by (simp add: event_handlers_def lru_cache_def body_truthy_ok)

lemma event_handlers_raise:
  assumes "cache s = None" and "truthy (token_at cfg (token_calls s))"
    and "Slack cfg (slack_calls s) (token_at cfg (Suc (token_calls s))) = Inl e"
  shows "event_handlers cfg s =
      (Inl e,
       s\<lparr>body_runs := Suc (body_runs s), token_calls := Suc (Suc (token_calls s)),
         slack_calls := Suc (slack_calls s)\<rparr>)"
  using assms by (simp add: event_handlers_def lru_cache_def body_truthy_raise)

lemma event_handlers_cases:
  obtains (hit) l where "cache s = Some l" "event_handlers cfg s = (Inr l, s)"
  | (falsy) "cache s = None" "\<not> truthy (token_at cfg (token_calls s))"
      "event_handlers cfg s =
        (Inr \<lparr>ident = allocated s, items = []\<rparr>,
         s\<lparr>body_runs := Suc (body_runs s), token_calls := Suc (token_calls s),
           allocated := Suc (allocated s),
           cache := Some \<lparr>ident = allocated s, items = []\<rparr>\<rparr>)"
  | (ok) h where "cache s = None" "truthy (token_at cfg (token_calls s))"
      "Slack cfg (slack_calls s) (token_at cfg (Suc (token_calls s))) = Inr h"
      "event_handlers cfg s =
        (Inr \<lparr>ident = allocated s, items = [h]\<rparr>,
         s\<lparr>body_runs := Suc (body_runs s), token_calls := Suc (Suc (token_calls s)),
           slack_calls := Suc (slack_calls s), allocated := Suc (allocated s),
           cache := Some \<lparr>ident = allocated s, items = [h]\<rparr>\<rparr>)"
  | (raise) e where "cache s = None" "truthy (token_at cfg (token_calls s))"
      "Slack cfg (slack_calls s) (token_at cfg (Suc (token_calls s))) = Inl e"
      "event_handlers cfg s =
        (Inl e,
         s\<lparr>body_runs := Suc (body_runs s), token_calls := Suc (Suc (token_calls s)),
           slack_calls := Suc (slack_calls s)\<rparr>)"
proof (cases "cache s")
  case (Some l)
  show ?thesis
    by (rule that(1) [OF Some event_handlers_hit [OF Some]])
next
  case None
  show ?thesis
  proof (cases rule: body_cases [of cfg s])
    case falsy
    show ?thesis
      by (rule that(2) [OF None falsy event_handlers_falsy [OF None falsy]])
  next
    case (ok h)
    show ?thesis
      by (rule that(3) [OF None ok event_handlers_ok [OF None ok]])
  next
    case (raise e)
    show ?thesis
      by (rule that(4) [OF None raise event_handlers_raise [OF None raise]])
  qed
qed

lemma truthy_iff: "truthy t = (\<exists>c cs. t = Some (c # cs))"
  by (cases t rule: truthy.cases) simp_all

lemma token_at_with_token: "token_at (with_token t ctor) k = t"
  by (simp add: token_at_def with_token_def returning_def)

lemma Slack_with_token: "Slack (with_token t ctor) = ctor"
  by (simp add: with_token_def)

subsection \<open>The test of the token is a truth test\<close>

text \<open>
  C9. On an unresolved cache, a token that is the empty string gives the empty list and
  no \<^verbatim>\<open>Slack\<close> construction; and whenever the call returns a list that is not
  empty, the token the test read was a string that is not empty.
\<close>

theorem empty_token_gives_no_handler:
  assumes "cache s = None"
  shows "(token_at cfg (token_calls s) = Some [] \<longrightarrow>
            fst (event_handlers cfg s) = Inr \<lparr>ident = allocated s, items = []\<rparr> \<and>
            slack_calls (snd (event_handlers cfg s)) = slack_calls s) \<and>
         (\<forall>l. fst (event_handlers cfg s) = Inr l \<and> items l \<noteq> [] \<longrightarrow>
            (\<exists>c cs. token_at cfg (token_calls s) = Some (c # cs)))"
proof (intro conjI impI allI)
  assume "token_at cfg (token_calls s) = Some []"
  then have "\<not> truthy (token_at cfg (token_calls s))" by simp
  from event_handlers_falsy [OF assms this]
  show "fst (event_handlers cfg s) = Inr \<lparr>ident = allocated s, items = []\<rparr>"
    and "slack_calls (snd (event_handlers cfg s)) = slack_calls s"
    by simp_all
next
  fix l
  assume l: "fst (event_handlers cfg s) = Inr l \<and> items l \<noteq> []"
  have "truthy (token_at cfg (token_calls s))"
  proof (rule ccontr)
    assume "\<not> truthy (token_at cfg (token_calls s))"
    from event_handlers_falsy [OF assms this] l show False by auto
  qed
  then show "\<exists>c cs. token_at cfg (token_calls s) = Some (c # cs)"
    by (simp add: truthy_iff)
qed

theorem empty_token_gives_no_handler_witness:
  "fst (event_handlers (with_token (Some []) Slack_keeps) fresh) = Inr \<lparr>ident = 0, items = []\<rparr> \<and>
   slack_calls (snd (event_handlers (with_token (Some []) Slack_keeps) fresh)) = 0 \<and>
   fst (event_handlers (with_token (Some ''T'') Slack_keeps) fresh)
     = Inr \<lparr>ident = 0, items = [Slack_handler (Some ''T'')]\<rparr> \<and>
   (\<exists>c cs. token_at (with_token (Some ''T'') Slack_keeps) 0 = Some (c # cs))"
proof -
  have c: "cache (fresh :: handler process) = None"
    by (simp add: fresh_def)
  have a: "allocated (fresh :: handler process) = 0" "slack_calls (fresh :: handler process) = 0"
    "token_calls (fresh :: handler process) = 0"
    by (simp_all add: fresh_def)
  from empty_token_gives_no_handler [OF c, of "with_token (Some []) Slack_keeps"]
  have 1: "fst (event_handlers (with_token (Some []) Slack_keeps) fresh) = Inr \<lparr>ident = 0, items = []\<rparr> \<and>
   slack_calls (snd (event_handlers (with_token (Some []) Slack_keeps) fresh)) = 0"
    by (simp add: a token_at_with_token)
  have 2: "fst (event_handlers (with_token (Some ''T'') Slack_keeps) fresh)
     = Inr \<lparr>ident = 0, items = [Slack_handler (Some ''T'')]\<rparr>"
    using event_handlers_ok [OF c, of "with_token (Some ''T'') Slack_keeps" "Slack_handler (Some ''T'')"]
    by (simp add: a token_at_with_token Slack_with_token Slack_keeps_def)
  from empty_token_gives_no_handler [OF c, of "with_token (Some ''T'') Slack_keeps"] 2
  have 3: "\<exists>c cs. token_at (with_token (Some ''T'') Slack_keeps) 0 = Some (c # cs)"
    by (simp add: a)
  from 1 2 3 show ?thesis by simp
qed

subsection \<open>The fallback from the deprecated token\<close>

text \<open>
  C2. The claim asks for one handler whenever the token is not absent, and the docstring
  of \<^verbatim>\<open>slack_token\<close> says the same: when not None, this webhook is notified. The
  code does not do so for the empty string: with \<^verbatim>\<open>slack_token\<close> rebound to return
  the empty string, a token that is not absent, and no rebinding of
  \<^verbatim>\<open>event_handlers\<close>, the first call of a fresh process returns the empty list.
\<close>

theorem empty_token_yields_no_handler:
  "token_at (with_token (Some []) Slack_keeps) 0 = Some [] \<and>
   token_at (with_token (Some []) Slack_keeps) 1 = Some [] \<and>
   event_handlers_binding (with_token (Some []) Slack_keeps) = None \<and>
   fst (call_event_handlers (with_token (Some []) Slack_keeps) fresh)
     = Inr \<lparr>ident = 0, items = []\<rparr>"
proof -
  have "\<not> truthy (token_at (with_token (Some []) Slack_keeps) (token_calls (fresh :: handler process)))"
    by (simp add: token_at_with_token)
  from event_handlers_falsy [OF _ this] show ?thesis
    by (simp add: call_event_handlers_def with_token_def token_at_def returning_def fresh_def)
qed

text \<open>
  For every other token the fallback is as described. With no rebinding of
  \<^verbatim>\<open>event_handlers\<close> and an unresolved cache: when \<^verbatim>\<open>slack_token()\<close> returns no value, the call returns the empty list; when it
  returns a string \<open>T\<close> that is not empty and \<^verbatim>\<open>Slack(T)\<close> returns the handler \<open>h\<close>,
  the call returns the list of exactly \<open>h\<close>.
\<close>

lemma fallback_from_token:
  assumes "event_handlers_binding cfg = None" and "cache s = None"
    and "token_at cfg (token_calls s) = t" and "token_at cfg (Suc (token_calls s)) = t"
  shows "(t = None \<longrightarrow>
            fst (call_event_handlers cfg s) = Inr \<lparr>ident = allocated s, items = []\<rparr>) \<and>
         (\<forall>T h. t = Some T \<and> T \<noteq> [] \<and> Slack cfg (slack_calls s) (Some T) = Inr h \<longrightarrow>
            fst (call_event_handlers cfg s) = Inr \<lparr>ident = allocated s, items = [h]\<rparr>)"
proof (intro conjI impI allI)
  assume "t = None"
  with assms(3) have "\<not> truthy (token_at cfg (token_calls s))" by simp
  from event_handlers_falsy [OF assms(2) this] assms(1)
  show "fst (call_event_handlers cfg s) = Inr \<lparr>ident = allocated s, items = []\<rparr>"
    by (simp add: call_event_handlers_def)
next
  fix T h
  assume h: "t = Some T \<and> T \<noteq> [] \<and> Slack cfg (slack_calls s) (Some T) = Inr h"
  with assms(3) have 1: "truthy (token_at cfg (token_calls s))"
    by (simp add: truthy_iff neq_Nil_conv)
  from h assms(4) have 2: "Slack cfg (slack_calls s) (token_at cfg (Suc (token_calls s))) = Inr h"
    by simp
  from event_handlers_ok [OF assms(2) 1 2] assms(1)
  show "fst (call_event_handlers cfg s) = Inr \<lparr>ident = allocated s, items = [h]\<rparr>"
    by (simp add: call_event_handlers_def)
qed

lemma fallback_from_token_instance:
  "fst (call_event_handlers (with_token None Slack_keeps) fresh) = Inr \<lparr>ident = 0, items = []\<rparr> \<and>
   fst (call_event_handlers (with_token (Some ''T'') Slack_keeps) fresh)
     = Inr \<lparr>ident = 0, items = [Slack_handler (Some ''T'')]\<rparr>"
proof -
  have c: "cache (fresh :: handler process) = None"
    by (simp add: fresh_def)
  have a: "allocated (fresh :: handler process) = 0"
    by (simp add: fresh_def)
  have b: "event_handlers_binding (with_token t ctor) = None" for t ctor
    by (simp add: with_token_def)
  from fallback_from_token [OF b c token_at_with_token token_at_with_token, of None Slack_keeps]
  have 1: "fst (call_event_handlers (with_token None Slack_keeps) fresh) = Inr \<lparr>ident = 0, items = []\<rparr>"
    by (simp add: a)
  from fallback_from_token [OF b c token_at_with_token token_at_with_token, of "Some ''T''" Slack_keeps]
  have 2: "fst (call_event_handlers (with_token (Some ''T'') Slack_keeps) fresh)
     = Inr \<lparr>ident = 0, items = [Slack_handler (Some ''T'')]\<rparr>"
    by (simp add: a Slack_with_token Slack_keeps_def)
  from 1 2 show ?thesis by simp
qed

subsection \<open>A rebound event_handlers\<close>

text \<open>
  C3. When the application has rebound \<^verbatim>\<open>event_handlers\<close> to
  \<^verbatim>\<open>lambda: [H1, H2]\<close>, a call returns a list of \<open>H1\<close> and \<open>H2\<close> whatever
  \<^verbatim>\<open>slack_token()\<close> would return: the token is not read, \<^verbatim>\<open>Slack\<close> is not
  constructed, the body of the default does not run and its cache is not touched.
\<close>

theorem override_takes_precedence:
  assumes "event_handlers_binding cfg = Some (lambda_list [H1, H2])"
  shows "call_event_handlers cfg s =
           (Inr \<lparr>ident = allocated s, items = [H1, H2]\<rparr>, s\<lparr>allocated := Suc (allocated s)\<rparr>) \<and>
         token_calls (snd (call_event_handlers cfg s)) = token_calls s \<and>
         slack_calls (snd (call_event_handlers cfg s)) = slack_calls s \<and>
         body_runs (snd (call_event_handlers cfg s)) = body_runs s \<and>
         cache (snd (call_event_handlers cfg s)) = cache s"
  using assms by (simp add: call_event_handlers_def lambda_list_def new_list_def)

theorem override_takes_precedence_witness:
  "truthy (token_at ((with_token (Some ''T'') Slack_keeps)
      \<lparr>event_handlers_binding := Some (lambda_list [Custom_handler 1, Custom_handler 2])\<rparr>) 0) \<and>
   call_event_handlers ((with_token (Some ''T'') Slack_keeps)
      \<lparr>event_handlers_binding := Some (lambda_list [Custom_handler 1, Custom_handler 2])\<rparr>) fresh
    = (Inr \<lparr>ident = 0, items = [Custom_handler 1, Custom_handler 2]\<rparr>,
       \<lparr>cache = None, body_runs = 0, token_calls = 0, slack_calls = 0, allocated = 1\<rparr>)"
  using override_takes_precedence [of "(with_token (Some ''T'') Slack_keeps)
      \<lparr>event_handlers_binding := Some (lambda_list [Custom_handler 1, Custom_handler 2])\<rparr>"
      "Custom_handler 1" "Custom_handler 2" fresh]
  by (simp add: fresh_def token_at_def with_token_def returning_def)

subsection \<open>A constructor that raises\<close>

text \<open>
  C5. A call of \<^verbatim>\<open>event_handlers()\<close> raises \<open>e\<close> exactly when nothing is cached, the
  token is true and the \<^verbatim>\<open>Slack\<close> constructor raises \<open>e\<close>: the module adds no error of
  its own and hands the constructor's exception on as it is. In that call the constructor
  ran once, no list was made in place of the handler, and nothing was stored.
\<close>

theorem construction_failure_propagates:
  "(fst (event_handlers cfg s) = Inl e) =
     (cache s = None \<and> truthy (token_at cfg (token_calls s)) \<and>
      Slack cfg (slack_calls s) (token_at cfg (Suc (token_calls s))) = Inl e) \<and>
   (fst (event_handlers cfg s) = Inl e \<longrightarrow>
      snd (event_handlers cfg s) =
        s\<lparr>body_runs := Suc (body_runs s), token_calls := Suc (Suc (token_calls s)),
          slack_calls := Suc (slack_calls s)\<rparr>)"
  by (cases rule: event_handlers_cases [of s cfg]) auto

theorem construction_failure_propagates_witness:
  "fst (event_handlers (with_token (Some ''T'') Slack_rejects) fresh) = Inl (Raised ''bad token'') \<and>
   snd (event_handlers (with_token (Some ''T'') Slack_rejects) fresh) =
     \<lparr>cache = None, body_runs = 1, token_calls = 2, slack_calls = 1, allocated = 0\<rparr>"
  using construction_failure_propagates
    [of "with_token (Some ''T'') Slack_rejects" fresh "Raised ''bad token''"]
  by (simp add: token_at_with_token Slack_with_token Slack_rejects_def fresh_def)

text \<open>
  C10. After a call that raised, the cache is still empty, and the next call, whatever
  the bindings are by then, runs the body again: it reads \<^verbatim>\<open>slack_token()\<close> again
  and, when the token it reads is true, constructs \<^verbatim>\<open>Slack\<close> again.
\<close>

theorem failed_resolution_is_not_cached:
  assumes "event_handlers cfg s = (Inl e, s')"
  shows "cache s' = None \<and>
         body_runs (snd (event_handlers cfg' s')) = Suc (body_runs s') \<and>
         token_calls s' < token_calls (snd (event_handlers cfg' s')) \<and>
         (truthy (token_at cfg' (token_calls s')) \<longrightarrow>
            slack_calls (snd (event_handlers cfg' s')) = Suc (slack_calls s'))"
proof -
  have c: "cache s' = None"
    using assms by (cases rule: event_handlers_cases [of s cfg]) auto
  show ?thesis
    by (cases rule: event_handlers_cases [of s' cfg']) (use c in auto)
qed

theorem failed_resolution_is_not_cached_witness:
  "event_handlers (with_token (Some ''T'') Slack_recovers) fresh =
     (Inl (Raised ''bad token''),
      \<lparr>cache = None, body_runs = 1, token_calls = 2, slack_calls = 1, allocated = 0\<rparr>) \<and>
   body_runs (snd (event_handlers (with_token (Some ''T'') Slack_recovers)
     \<lparr>cache = None, body_runs = 1, token_calls = 2, slack_calls = 1, allocated = 0\<rparr>)) = 2 \<and>
   2 < token_calls (snd (event_handlers (with_token (Some ''T'') Slack_recovers)
     \<lparr>cache = None, body_runs = 1, token_calls = 2, slack_calls = 1, allocated = 0\<rparr>)) \<and>
   slack_calls (snd (event_handlers (with_token (Some ''T'') Slack_recovers)
     \<lparr>cache = None, body_runs = 1, token_calls = 2, slack_calls = 1, allocated = 0\<rparr>)) = 2"
proof -
  have 1: "event_handlers (with_token (Some ''T'') Slack_recovers) fresh =
     (Inl (Raised ''bad token''),
      \<lparr>cache = None, body_runs = 1, token_calls = 2, slack_calls = 1, allocated = 0\<rparr>)"
    using event_handlers_raise
      [of fresh "with_token (Some ''T'') Slack_recovers" "Raised ''bad token''"]
    by (simp add: token_at_with_token Slack_with_token Slack_recovers_def fresh_def)
  from failed_resolution_is_not_cached [OF 1, of "with_token (Some ''T'') Slack_recovers"]
  show ?thesis using 1 by (simp add: token_at_with_token)
qed

subsection \<open>Memoization\<close>

lemma calls_cached:
  "cache s = Some l \<Longrightarrow> calls cfgs s = (replicate (length cfgs) (Inr l), s)"
  by (induction cfgs) (simp_all add: event_handlers_hit)

text \<open>
  C1. When the first call of \<^verbatim>\<open>event_handlers()\<close> in a process returns the list
  \<open>l\<close>, every one of the \<open>N\<close> calls (\<open>N = 1 + length cfgs\<close>) returns that same list object,
  whatever the bindings have become for the later calls, and the process ends in the
  state the first call left: the body ran once, one list was allocated, and the
  constructor ran once if the token was true and not at all otherwise.
\<close>

theorem event_handlers_memoized:
  assumes "cache s = None" and "event_handlers cfg s = (Inr l, s1)"
  shows "calls (cfg # cfgs) s = (replicate (Suc (length cfgs)) (Inr l), s1) \<and>
         cache s1 = Some l \<and>
         body_runs s1 = Suc (body_runs s) \<and>
         allocated s1 = Suc (allocated s) \<and>
         slack_calls s1 =
           (if truthy (token_at cfg (token_calls s)) then Suc (slack_calls s) else slack_calls s)"
proof -
  have s1: "cache s1 = Some l \<and> body_runs s1 = Suc (body_runs s) \<and>
         allocated s1 = Suc (allocated s) \<and>
         slack_calls s1 =
           (if truthy (token_at cfg (token_calls s)) then Suc (slack_calls s) else slack_calls s)"
    using assms by (cases rule: event_handlers_cases [of s cfg]) auto
  then have "calls cfgs s1 = (replicate (length cfgs) (Inr l), s1)"
    by (simp add: calls_cached)
  with assms(2) s1 show ?thesis by simp
qed

theorem event_handlers_memoized_witness:
  "calls [with_token (Some ''T'') Slack_keeps, with_token (Some ''U'') Slack_keeps,
          with_token None Slack_rejects] fresh =
     ([Inr \<lparr>ident = 0, items = [Slack_handler (Some ''T'')]\<rparr>,
       Inr \<lparr>ident = 0, items = [Slack_handler (Some ''T'')]\<rparr>,
       Inr \<lparr>ident = 0, items = [Slack_handler (Some ''T'')]\<rparr>],
      \<lparr>cache = Some \<lparr>ident = 0, items = [Slack_handler (Some ''T'')]\<rparr>,
        body_runs = 1, token_calls = 2, slack_calls = 1, allocated = 1\<rparr>)"
proof -
  have c: "cache (fresh :: handler process) = None"
    by (simp add: fresh_def)
  have 1: "event_handlers (with_token (Some ''T'') Slack_keeps) fresh =
     (Inr \<lparr>ident = 0, items = [Slack_handler (Some ''T'')]\<rparr>,
      \<lparr>cache = Some \<lparr>ident = 0, items = [Slack_handler (Some ''T'')]\<rparr>,
        body_runs = 1, token_calls = 2, slack_calls = 1, allocated = 1\<rparr>)"
    using event_handlers_ok [OF c, of "with_token (Some ''T'') Slack_keeps" "Slack_handler (Some ''T'')"]
    by (simp add: token_at_with_token Slack_with_token Slack_keeps_def fresh_def)
  from event_handlers_memoized [OF c 1,
      of "[with_token (Some ''U'') Slack_keeps, with_token None Slack_rejects]"]
  show ?thesis by (simp add: numeral_3_eq_3)
qed

subsection \<open>Callers in several threads\<close>



text \<open>A caller that takes its three steps alone does what the cached function does.\<close>

lemma caller_step_single:
  "interleave cfg [0, 0, 0] [Entering] s =
     ([Returned (fst (event_handlers cfg s))], snd (event_handlers cfg s))"
  by (cases rule: event_handlers_cases [of s cfg])
    (simp_all add: event_handlers_def lru_cache_def split: prod.splits sum.splits)















end
